theory Spec2Isabelle
  imports Complex_Main "HOL-Library.Word" "HOL-Library.Signed_Division"
begin

section \<open>The MEX entry point of densecrf\_mex.cpp\<close>

text \<open>
  The translation unit holds one function, \<open>mexFunction\<close>, which reads an image, a
  unary table, the grid shape and an option structure, and solves the labelling problem
  with the mean-field engine (solver \<open>MF\<close>) or with TRW-S (solver \<open>TRWS\<close>).

  Conventions of the embedding:
  \<^item> \<open>float\<close> and \<open>double\<close> values are real numbers (no rounding, no NaN);
  \<^item> \<open>int\<close> values are mathematical integers; a signed overflow, a division by zero
    and a failed \<open>assert\<close> are error values, like a call of \<open>mexErrMsgTxt\<close>
    (\<open>assert\<close> is taken as compiled in);
  \<^item> \<open>unsigned int\<close> entries of the size vector are 32-bit words, read into an
    \<open>int\<close> with \<open>sint\<close>;
  \<^item> \<open>mexPrintf\<close>, \<open>startTime\<close> and \<open>endTime\<close> write to the console and the
    global timer only and are left out;
  \<^item> the classes and engines declared in \<open>meanfield.h\<close> and \<open>solvers.h\<close> are
    parameters of the model (record \<open>collaborators\<close>).
\<close>

subsection \<open>Errors\<close>

datatype error =
    MexErrMsgTxt string
  | AssertionFailed string
  | DivisionByZero
  | SignedOverflow
  | BackendError string

subsection \<open>Inputs\<close>

record PairwiseWeights =
  gaussian_x_stddev :: real
  gaussian_y_stddev :: real
  gaussian_weight :: real
  bilateral_x_stddev :: real
  bilateral_y_stddev :: real
  bilateral_r_stddev :: real
  bilateral_g_stddev :: real
  bilateral_b_stddev :: real
  bilateral_weight :: real

text \<open>
  The option structure after \<open>MexParams params(1, prhs+3)\<close>. An option that the caller
  left out is \<open>None\<close>. \<open>pairwiseWeights\<close> is what \<open>PairwiseWeights(params)\<close> reads and
  \<open>normalization\<close> the enumeration value that \<open>parseNormalizationType(params)\<close> returns.
\<close>

record MexParams =
  pairwiseWeights :: PairwiseWeights
  normalization :: int
  debug_opt :: "bool option"
  iterations_opt :: "32 word option"
  min_pairwise_cost_opt :: "real option"
  solver_opt :: "string option"

text \<open>\<open>params.get<T>(name, default)\<close>\<close>

definition params_get :: "'a option \<Rightarrow> 'a \<Rightarrow> 'a" where
  "params_get opt dflt = (case opt of None \<Rightarrow> dflt | Some v \<Rightarrow> v)"

text \<open>
  The arguments of \<open>mexFunction\<close>: the two counts and the four right-hand sides
  (\<open>prhs[0..3]\<close>, read only when \<open>nrhs = 4\<close>). \<open>im_size\<close> is the vector
  \<open>(M, N, C)\<close>.
\<close>

record mex_input =
  nlhs :: int
  nrhs :: int
  im_matrix :: "8 word list"
  unary_matrix :: "real list"
  im_size :: "32 word \<times> 32 word \<times> 32 word"
  params :: MexParams

subsection \<open>Outputs\<close>

text \<open>A \<open>matrix<double>\<close>: its dimensions and its elements in storage order.\<close>

record matrix_double =
  dims :: "int list"
  data :: "real list"

subsection \<open>The dense CRF object and the TRW-S graph\<close>

datatype KernelType = CONST_KERNEL

datatype PairwisePotential =
    PairwiseGaussian real real real KernelType int
  | PairwiseBilateral real real real real real "8 word list" real KernelType int

record DenseCRF =
  crf_M :: int
  crf_N :: int
  crf_L :: nat
  crf_unary :: "(real list \<times> nat \<times> int) option"
  crf_pairwise :: "PairwisePotential list"

definition extendedDenseCRF2D :: "int \<Rightarrow> int \<Rightarrow> nat \<Rightarrow> DenseCRF" where
  "extendedDenseCRF2D M N L =
     \<lparr>crf_M = M, crf_N = N, crf_L = L, crf_unary = None, crf_pairwise = []\<rparr>"

definition setUnaryEnergy :: "DenseCRF \<Rightarrow> real list \<times> nat \<times> int \<Rightarrow> DenseCRF" where
  "setUnaryEnergy crf unary = crf\<lparr>crf_unary := Some unary\<rparr>"

definition addPairwise :: "DenseCRF \<Rightarrow> PairwisePotential \<Rightarrow> DenseCRF" where
  "addPairwise crf p = crf\<lparr>crf_pairwise := crf_pairwise crf @ [p]\<rparr>"

record TRWSOptions =
  m_iterMax :: int
  m_printMinIter :: "int option"

text \<open>
  The graph under construction in a \<open>TRWS\<close> object: the label count, the node data in
  the order of \<open>AddNode\<close> and the edges in the order of \<open>AddEdge\<close>.
\<close>

record TRWS =
  globalSize :: nat
  nodes :: "real list list"
  edges :: "(nat \<times> nat \<times> real) list"

definition new_TRWS :: "nat \<Rightarrow> TRWS" where
  "new_TRWS L = \<lparr>globalSize = L, nodes = [], edges = []\<rparr>"

definition AddNode :: "TRWS \<Rightarrow> real list \<Rightarrow> TRWS" where
  "AddNode mrf D = mrf\<lparr>nodes := nodes mrf @ [D]\<rparr>"

definition AddEdge :: "TRWS \<Rightarrow> nat \<Rightarrow> nat \<Rightarrow> real \<Rightarrow> TRWS" where
  "AddEdge mrf i j c = mrf\<lparr>edges := edges mrf @ [(i, j, c)]\<rparr>"

subsection \<open>Collaborators that are not in this file\<close>

text \<open>
  \<open>linear2sub M N i\<close> is \<open>Linear2sub(M,N)(i)\<close>;
  \<open>unaryCost unary (M, N, L) p s\<close> is \<open>UnaryCost(unary_array, LinearIndex(M,N,L))(p, s)\<close>;
  \<open>pairwiseCost image w (M, N, C) p0 p1\<close> is
  \<open>PairwiseCost(image, pairwiseWeights, LinearIndex(M,N,C))(p0, p1)\<close>;
  \<open>crf_map\<close> and \<open>crf_energy\<close> are the methods \<open>map\<close> and \<open>energy\<close> of
  \<open>extendedDenseCRF2D\<close>; \<open>Minimize_TRW_S\<close> runs TRW-S and gives the solution
  (\<open>GetSolution\<close>), the energy and the lower bound. An engine that fails gives an error.
\<close>

record collaborators =
  linear2sub :: "int \<Rightarrow> int \<Rightarrow> nat \<Rightarrow> int \<times> int"
  unaryCost :: "real list \<Rightarrow> int \<times> int \<times> nat \<Rightarrow> int \<times> int \<Rightarrow> nat \<Rightarrow> real"
  pairwiseCost ::
    "8 word list \<Rightarrow> PairwiseWeights \<Rightarrow> int \<times> int \<times> int \<Rightarrow> int \<times> int \<Rightarrow> int \<times> int \<Rightarrow> real"
  crf_map :: "DenseCRF \<Rightarrow> int \<Rightarrow> error + (nat \<Rightarrow> int)"
  crf_energy :: "DenseCRF \<Rightarrow> (nat \<Rightarrow> int) \<Rightarrow> real"
  Minimize_TRW_S :: "TRWS \<Rightarrow> TRWSOptions \<Rightarrow> error + ((nat \<Rightarrow> int) \<times> real \<times> real)"

text \<open>
  Modelled from the spec: \<open>lowestUnaryCost\<close>, declared in \<open>meanfield.h\<close>, which is
  not among the sources. The spec (4.4): the trivial bound obtained by taking, for every
  variable, the minimum unary cost over labels and summing. The unary table has
  \<open>L\<close> rows and \<open>M\<cdot>N\<close> columns in column-major order (line 97 maps the array so),
  hence the cost of label \<open>l\<close> at variable \<open>i\<close> is element \<open>l + i\<cdot>L\<close>. The spec
  leaves the minimum over no label open; it is 0 here.
\<close>

definition UnaryCostTable :: "real list \<Rightarrow> nat \<Rightarrow> nat \<Rightarrow> nat \<Rightarrow> real" where
  "UnaryCostTable unary_array L i l = unary_array ! (l + i * L)"

fun lowest :: "real list \<Rightarrow> real" where
  "lowest [] = 0"
| "lowest (x # xs) = fold min xs x"

definition lowestUnaryCost :: "real list \<Rightarrow> int \<Rightarrow> int \<Rightarrow> nat \<Rightarrow> real" where
  "lowestUnaryCost unary_array M N L =
     (\<Sum>i\<leftarrow>[0..<nat (M * N)]. lowest (map (UnaryCostTable unary_array L i) [0..<L]))"

subsection \<open>Lines 19 to 64: reading the arguments\<close>

record locals =
  debug :: bool
  iterations :: int
  min_pairwise_cost :: real
  solver :: string
  grid_M :: int
  grid_N :: int
  grid_C :: int
  numVariables :: int
  numberOfLabels :: nat

definition int_range :: "int \<Rightarrow> bool" where
  "int_range x \<longleftrightarrow> - (2 ^ 31) \<le> x \<and> x < 2 ^ 31"

text \<open>
  The conversion of an element count to \<open>int\<close> (\<open>UC = unary_matrix.numel()\<close>) and
  of an \<open>int\<close> to \<open>size_t\<close> (64 bits).
\<close>

definition int_of_size :: "nat \<Rightarrow> int" where
  "int_of_size n = sint (word_of_nat n :: 32 word)"

definition size_t_of_int :: "int \<Rightarrow> nat" where
  "size_t_of_int x = nat (x mod 2 ^ 64)"

text \<open>\<open>s.compare(t)\<close> as a condition: true when the result is not zero.\<close>

definition compare :: "string \<Rightarrow> string \<Rightarrow> bool" where
  "compare s t \<longleftrightarrow> s \<noteq> t"

text \<open>The values read at lines 40 and 43 to 45.\<close>

definition solver_of :: "mex_input \<Rightarrow> string" where
  "solver_of a = params_get (solver_opt (params a)) ''Not set''"

definition M_of :: "mex_input \<Rightarrow> int" where
  "M_of a = sint (fst (im_size a))"

definition N_of :: "mex_input \<Rightarrow> int" where
  "N_of a = sint (fst (snd (im_size a)))"

definition C_of :: "mex_input \<Rightarrow> int" where
  "C_of a = sint (snd (snd (im_size a)))"

definition mexFunction_parse :: "mex_input \<Rightarrow> error + locals" where
  "mexFunction_parse a =
     (if nrhs a \<noteq> 4 then Inl (MexErrMsgTxt ''Expected 3 inputs'')
      else
        let M = M_of a; N = N_of a; C = C_of a;
            UC = int_of_size (length (unary_matrix a))
        in if \<not> int_range (M * N) then Inl SignedOverflow
           else if M * N = 0 then Inl DivisionByZero
           else if \<not> M > 0 then Inl (AssertionFailed ''M > 0'')
           else if \<not> N > 0 then Inl (AssertionFailed ''N > 0'')
           else if compare (solver_of a) ''MF'' \<and> compare (solver_of a) ''TRWS''
             then Inl (MexErrMsgTxt ''Unknown solver'')
           else Inr \<lparr>debug = params_get (debug_opt (params a)) False,
                     iterations = sint (params_get (iterations_opt (params a)) 20),
                     min_pairwise_cost = params_get (min_pairwise_cost_opt (params a)) 0,
                     solver = solver_of a,
                     grid_M = M, grid_N = N, grid_C = C,
                     numVariables = M * N,
                     numberOfLabels = size_t_of_int (UC sdiv (M * N))\<rparr>)"

subsection \<open>Lines 92 to 136: mean field\<close>

text \<open>Lines 96 to 119: the model that \<open>crf.map\<close> and \<open>crf.energy\<close> work on.\<close>

definition dense_crf :: "mex_input \<Rightarrow> locals \<Rightarrow> DenseCRF" where
  "dense_crf a v =
     (let w = pairwiseWeights (params a);
          crf0 = extendedDenseCRF2D (grid_M v) (grid_N v) (numberOfLabels v);
          crf1 = setUnaryEnergy crf0 (unary_matrix a, numberOfLabels v, numVariables v);
          crf2 = addPairwise crf1
                   (PairwiseGaussian (gaussian_x_stddev w) (gaussian_y_stddev w)
                      (gaussian_weight w) CONST_KERNEL (normalization (params a)))
      in addPairwise crf2
           (PairwiseBilateral (bilateral_x_stddev w) (bilateral_y_stddev w)
              (bilateral_r_stddev w) (bilateral_g_stddev w) (bilateral_b_stddev w)
              (im_matrix a) (bilateral_weight w) CONST_KERNEL (normalization (params a))))"

definition mexFunction_MF :: "collaborators \<Rightarrow> mex_input \<Rightarrow> locals \<Rightarrow> error + matrix_double list" where
  "mexFunction_MF env a v =
     (case crf_map env (dense_crf a v) (iterations v) of
        Inl e \<Rightarrow> Inl e
      | Inr m \<Rightarrow>
          Inr [\<lparr>dims = [grid_M v, grid_N v],
                data = map (\<lambda>i. real_of_int (m i)) [0..<nat (numVariables v)]\<rparr>,
               \<lparr>dims = [1], data = [crf_energy env (dense_crf a v) m]\<rparr>,
               \<lparr>dims = [1],
                data = [lowestUnaryCost (unary_matrix a) (grid_M v) (grid_N v)
                          (numberOfLabels v)]\<rparr>])"

subsection \<open>Lines 138 to 192: TRW-S\<close>

text \<open>Lines 152 to 162: one node per variable, with its unary costs.\<close>

definition add_nodes ::
  "(nat \<Rightarrow> int \<times> int) \<Rightarrow> (int \<times> int \<Rightarrow> nat \<Rightarrow> real) \<Rightarrow> nat \<Rightarrow> nat \<Rightarrow> TRWS \<Rightarrow> TRWS" where
  "add_nodes l2s ucost n L mrf =
     fold (\<lambda>i mrf. AddNode mrf (map (\<lambda>s. ucost (l2s i) s) [0..<L])) [0..<n] mrf"

text \<open>Lines 164 to 175: the edges. The inner loop runs \<open>j\<close> from \<open>i+1\<close>.\<close>

definition add_edges_from ::
  "(nat \<Rightarrow> int \<times> int) \<Rightarrow> (int \<times> int \<Rightarrow> int \<times> int \<Rightarrow> real) \<Rightarrow> real \<Rightarrow> nat \<Rightarrow> nat \<Rightarrow> TRWS \<Rightarrow> TRWS" where
  "add_edges_from l2s pcost_of minc n i mrf =
     fold (\<lambda>j mrf.
             let p0 = l2s i; p1 = l2s j; pcost = pcost_of p0 p1
             in if pcost \<ge> minc then AddEdge mrf i j pcost else mrf)
          [i + 1..<n] mrf"

definition add_edges ::
  "(nat \<Rightarrow> int \<times> int) \<Rightarrow> (int \<times> int \<Rightarrow> int \<times> int \<Rightarrow> real) \<Rightarrow> real \<Rightarrow> nat \<Rightarrow> TRWS \<Rightarrow> TRWS" where
  "add_edges l2s pcost_of minc n mrf = fold (add_edges_from l2s pcost_of minc n) [0..<n] mrf"

text \<open>The graph that \<open>Minimize_TRW_S\<close> receives.\<close>

definition trws_graph :: "collaborators \<Rightarrow> mex_input \<Rightarrow> locals \<Rightarrow> TRWS" where
  "trws_graph env a v =
     (let l2s = linear2sub env (grid_M v) (grid_N v);
          ucost = unaryCost env (unary_matrix a) (grid_M v, grid_N v, numberOfLabels v);
          pcost_of = pairwiseCost env (im_matrix a) (pairwiseWeights (params a))
                       (grid_M v, grid_N v, grid_C v);
          n = nat (numVariables v)
      in add_edges l2s pcost_of (min_pairwise_cost v) n
           (add_nodes l2s ucost n (numberOfLabels v) (new_TRWS (numberOfLabels v))))"

definition mexFunction_TRWS :: "collaborators \<Rightarrow> mex_input \<Rightarrow> locals \<Rightarrow> error + matrix_double list" where
  "mexFunction_TRWS env a v =
     (if \<not> debug v \<and> \<not> int_range (iterations v + 2) then Inl SignedOverflow
      else
        let options = \<lparr>m_iterMax = iterations v,
                       m_printMinIter = (if \<not> debug v then Some (iterations v + 2) else None)\<rparr>
        in case Minimize_TRW_S env (trws_graph env a v) options of
             Inl e \<Rightarrow> Inl e
           | Inr (solution, TRWSenergy, TRWSlb) \<Rightarrow>
               Inr [\<lparr>dims = [grid_M v, grid_N v],
                     data = map (\<lambda>i. real_of_int (solution i)) [0..<nat (numVariables v)]\<rparr>,
                    \<lparr>dims = [1], data = [TRWSenergy]\<rparr>,
                    \<lparr>dims = [1], data = [TRWSlb]\<rparr>])"

subsection \<open>The whole function\<close>

text \<open>
  The value is the error that ends the call, or \<open>plhs[0..2]\<close> as they are when the
  function returns. The last branch is the end of the function body at line 193, where
  the matrices of lines 81 to 83 were never written.
\<close>

definition mexFunction :: "collaborators \<Rightarrow> mex_input \<Rightarrow> error + matrix_double list" where
  "mexFunction env a =
     (case mexFunction_parse a of
        Inl e \<Rightarrow> Inl e
      | Inr v \<Rightarrow>
          if \<not> compare (solver v) ''MF'' then mexFunction_MF env a v
          else if \<not> compare (solver v) ''TRWS'' then mexFunction_TRWS env a v
          else Inr [\<lparr>dims = [grid_M v, grid_N v], data = replicate (nat (numVariables v)) 0\<rparr>,
                    \<lparr>dims = [1], data = [0]\<rparr>,
                    \<lparr>dims = [1], data = [0]\<rparr>])"

section \<open>Parts modelled from the spec\<close>

text \<open>The pairs \<open>(i, j)\<close> with \<open>i < j < n\<close>, in the order of the two loops of line 165.\<close>

definition unordered_pairs :: "nat \<Rightarrow> (nat \<times> nat) list" where
  "unordered_pairs n = concat (map (\<lambda>i. map (\<lambda>j. (i, j)) [i + 1..<n]) [0..<n])"

text \<open>
  Modelled from the spec: GridIndex (\<open>Linear2sub\<close> and its inverse, declared in
  \<open>meanfield.h\<close>, which is not among the sources). The spec (3, 4.1): a variable is a
  linear index \<open>i\<close> in \<open>[0, M\<cdot>N)\<close> or a coordinate \<open>(row, col)\<close> with \<open>row\<close> in
  \<open>[0, M)\<close> and \<open>col\<close> in \<open>[0, N)\<close>, in row-major or an equivalent canonical order.
  Both canonical orders are modelled.
\<close>

datatype grid_order = RowMajor | ColumnMajor

fun GridIndex_toCoord :: "grid_order \<Rightarrow> nat \<Rightarrow> nat \<Rightarrow> nat \<Rightarrow> nat \<times> nat" where
  "GridIndex_toCoord RowMajor M N i = (i div N, i mod N)"
| "GridIndex_toCoord ColumnMajor M N i = (i mod M, i div M)"

fun GridIndex_toLinear :: "grid_order \<Rightarrow> nat \<Rightarrow> nat \<Rightarrow> nat \<times> nat \<Rightarrow> nat" where
  "GridIndex_toLinear RowMajor M N (row, col) = row * N + col"
| "GridIndex_toLinear ColumnMajor M N (row, col) = row + col * M"

text \<open>
  Modelled from the spec: PairwiseKernelMixture (\<open>PairwiseCost\<close>, declared in
  \<open>meanfield.h\<close>). The spec (4.3):
  \<open>cost = weight_spatial \<cdot> exp(-\<parallel>\<Delta>position\<parallel>\<^sup>2) + weight_appearance \<cdot>
  exp(-\<parallel>\<Delta>position\<parallel>\<^sup>2 - \<parallel>\<Delta>color\<parallel>\<^sup>2)\<close>, each squared distance with every axis
  divided by its standard deviation, squared and summed. \<open>color p\<close> is the colour of
  the image at coordinate \<open>p\<close>.
\<close>

definition PairwiseKernelMixture_cost ::
  "PairwiseWeights \<Rightarrow> (int \<times> int \<Rightarrow> real \<times> real \<times> real) \<Rightarrow> int \<times> int \<Rightarrow> int \<times> int \<Rightarrow> real" where
  "PairwiseKernelMixture_cost w color p0 p1 =
     (let dx = real_of_int (fst p0 - fst p1);
          dy = real_of_int (snd p0 - snd p1);
          dr = fst (color p0) - fst (color p1);
          dg = fst (snd (color p0)) - fst (snd (color p1));
          db = snd (snd (color p0)) - snd (snd (color p1))
      in gaussian_weight w
           * exp (- ((dx / gaussian_x_stddev w)\<^sup>2 + (dy / gaussian_y_stddev w)\<^sup>2))
         + bilateral_weight w
           * exp (- ((dx / bilateral_x_stddev w)\<^sup>2 + (dy / bilateral_y_stddev w)\<^sup>2)
                  - ((dr / bilateral_r_stddev w)\<^sup>2 + (dg / bilateral_g_stddev w)\<^sup>2
                     + (db / bilateral_b_stddev w)\<^sup>2)))"

text \<open>
  Modelled from the spec: EnergyFunctor (declared in \<open>meanfield.h\<close>). The spec (4.4):
  the sum of the unary cost of \<open>labeling[i]\<close> over all variables plus the pairwise cost
  over all unordered pairs with disagreeing labels. \<open>ucost i l\<close> is the unary cost of
  label \<open>l\<close> at variable \<open>i\<close>, \<open>pcost i j\<close> the pairwise cost of variables \<open>i\<close> and
  \<open>j\<close>. A labeling is valid when it has one label below \<open>L\<close> for each variable.
\<close>

definition EnergyFunctor_energy ::
  "(nat \<Rightarrow> nat \<Rightarrow> real) \<Rightarrow> (nat \<Rightarrow> nat \<Rightarrow> real) \<Rightarrow> nat \<Rightarrow> nat list \<Rightarrow> real" where
  "EnergyFunctor_energy ucost pcost n labeling =
     (\<Sum>i\<leftarrow>[0..<n]. ucost i (labeling ! i))
     + (\<Sum>(i, j)\<leftarrow>unordered_pairs n. if labeling ! i \<noteq> labeling ! j then pcost i j else 0)"

definition valid_labeling :: "nat \<Rightarrow> nat \<Rightarrow> nat list \<Rightarrow> bool" where
  "valid_labeling n L labeling \<longleftrightarrow> length labeling = n \<and> list_all (\<lambda>l. l < L) labeling"

section \<open>A concrete call\<close>

text \<open>
  A 2 by 2 grid with two labels and three colour channels, with stand-ins for the
  collaborators: column-major coordinates, the unary table read as in
  \<open>UnaryCostTable\<close>, the city-block distance as pairwise cost, and engines that label
  every variable 0.
\<close>

definition example_env :: collaborators where
  "example_env =
     \<lparr>linear2sub = (\<lambda>M N i. (int i mod M, int i div M)),
      unaryCost = (\<lambda>unary d p s. UnaryCostTable unary (snd (snd d)) (nat (fst p + snd p * fst d)) s),
      pairwiseCost = (\<lambda>image w d p0 p1. real_of_int (\<bar>fst p0 - fst p1\<bar> + \<bar>snd p0 - snd p1\<bar>)),
      crf_map = (\<lambda>crf n_iterations. Inr (\<lambda>i. 0)),
      crf_energy = (\<lambda>crf m. 0),
      Minimize_TRW_S = (\<lambda>mrf options. Inr (\<lambda>i. 0, 0, 0))\<rparr>"

text \<open>
  Two more stand-ins for the engines: one that reports what it was handed (TRW-S gives
  the number of edges of its graph as the energy and its iteration budget as the bound),
  and one that always fails.
\<close>

definition probe_env :: collaborators where
  "probe_env =
     example_env\<lparr>Minimize_TRW_S :=
       (\<lambda>mrf options. Inr (\<lambda>i. 0, real (length (edges mrf)), real_of_int (m_iterMax options)))\<rparr>"


definition example_weights :: PairwiseWeights where
  "example_weights =
     \<lparr>gaussian_x_stddev = 1, gaussian_y_stddev = 1, gaussian_weight = 1,
      bilateral_x_stddev = 1, bilateral_y_stddev = 1, bilateral_r_stddev = 1,
      bilateral_g_stddev = 1, bilateral_b_stddev = 1, bilateral_weight = 1\<rparr>"

definition example_params :: MexParams where
  "example_params =
     \<lparr>pairwiseWeights = example_weights, normalization = 0, debug_opt = None,
      iterations_opt = None, min_pairwise_cost_opt = None, solver_opt = Some ''MF''\<rparr>"

definition example_input :: mex_input where
  "example_input =
     \<lparr>nlhs = 3, nrhs = 4, im_matrix = replicate 12 0,
      unary_matrix = [0, 1, 1, 0, 1, 0, 0, 1], im_size = (2, 2, 3),
      params = example_params\<rparr>"

definition example_locals :: locals where
  "example_locals =
     \<lparr>debug = False, iterations = 20, min_pairwise_cost = 0, solver = ''MF'',
      grid_M = 2, grid_N = 2, grid_C = 3, numVariables = 4, numberOfLabels = 2\<rparr>"

section \<open>The edge loop\<close>

lemma edges_add_edges_from:
  "edges (add_edges_from l2s pc minc n i mrf) =
     edges mrf @ map (\<lambda>j. (i, j, pc (l2s i) (l2s j)))
                   (filter (\<lambda>j. pc (l2s i) (l2s j) \<ge> minc) [i + 1..<n])"
proof -
  have "edges (fold (\<lambda>j mrf. let p0 = l2s i; p1 = l2s j; pcost = pc p0 p1
                             in if pcost \<ge> minc then AddEdge mrf i j pcost else mrf) js mrf) =
        edges mrf @ map (\<lambda>j. (i, j, pc (l2s i) (l2s j)))
                      (filter (\<lambda>j. pc (l2s i) (l2s j) \<ge> minc) js)" for js
    by (induction js arbitrary: mrf) (simp_all add: AddEdge_def Let_def)
  then show ?thesis by (simp add: add_edges_from_def)
qed

lemma edges_add_edges:
  "edges (add_edges l2s pc minc n mrf) =
     edges mrf @ map (\<lambda>(i, j). (i, j, pc (l2s i) (l2s j)))
                   (filter (\<lambda>(i, j). pc (l2s i) (l2s j) \<ge> minc) (unordered_pairs n))"
proof -
  have "edges (fold (add_edges_from l2s pc minc n) is mrf) =
        edges mrf @ map (\<lambda>(i, j). (i, j, pc (l2s i) (l2s j)))
          (filter (\<lambda>(i, j). pc (l2s i) (l2s j) \<ge> minc)
             (concat (map (\<lambda>i. map (\<lambda>j. (i, j)) [i + 1..<n]) is)))" for "is"
    by (induction "is" arbitrary: mrf)
       (simp_all add: edges_add_edges_from filter_map comp_def)
  then show ?thesis by (simp add: add_edges_def unordered_pairs_def)
qed

lemma set_unordered_pairs: "set (unordered_pairs n) = {(i, j). i < j \<and> j < n}"
  by (force simp: unordered_pairs_def)

lemma distinct_unordered_pairs: "distinct (unordered_pairs n)"
proof -
  have "distinct (concat (map (\<lambda>i. map (\<lambda>j. (i, j)) [i + 1..<n]) is))" if "distinct is" for "is"
    using that by (induction "is") (auto simp: distinct_map inj_on_def)
  then show ?thesis by (simp add: unordered_pairs_def)
qed

lemma edges_add_nodes: "edges (add_nodes l2s uc n L mrf) = edges mrf"
proof -
  have "edges (fold (\<lambda>i mrf. AddNode mrf (map (\<lambda>s. uc (l2s i) s) [0..<L])) is mrf) = edges mrf" for "is"
    by (induction "is" arbitrary: mrf) (simp_all add: AddNode_def)
  then show ?thesis by (simp add: add_nodes_def)
qed

lemma edges_trws_graph:
  "edges (trws_graph env a v) =
     map (\<lambda>(i, j). (i, j, pairwiseCost env (im_matrix a) (pairwiseWeights (params a))
                            (grid_M v, grid_N v, grid_C v)
                            (linear2sub env (grid_M v) (grid_N v) i)
                            (linear2sub env (grid_M v) (grid_N v) j)))
       (filter (\<lambda>(i, j). pairwiseCost env (im_matrix a) (pairwiseWeights (params a))
                            (grid_M v, grid_N v, grid_C v)
                            (linear2sub env (grid_M v) (grid_N v) i)
                            (linear2sub env (grid_M v) (grid_N v) j) \<ge> min_pairwise_cost v)
          (unordered_pairs (nat (numVariables v))))"
  by (simp add: trws_graph_def Let_def edges_add_edges edges_add_nodes new_TRWS_def)

lemma length_filter_mono:
  "(\<And>x. x \<in> set xs \<Longrightarrow> P x \<Longrightarrow> Q x) \<Longrightarrow> length (filter P xs) \<le> length (filter Q xs)"
  by (induction xs) auto

section \<open>Reading the arguments\<close>

lemma int_of_size_small: "n < 2 ^ 31 \<Longrightarrow> int_of_size n = int n"
  by (simp add: int_of_size_def signed_of_nat signed_take_bit_int_eq_self)

lemma sdiv_nonneg: "0 \<le> k \<Longrightarrow> 0 < l \<Longrightarrow> k sdiv l = k div (l :: int)"
  by (cases "k = 0") (simp_all add: signed_divide_int_def)

lemma mexFunction_parse_Inr:
  "mexFunction_parse a = Inr v \<longleftrightarrow>
     nrhs a = 4 \<and> int_range (M_of a * N_of a) \<and> 0 < M_of a \<and> 0 < N_of a
     \<and> (solver_of a = ''MF'' \<or> solver_of a = ''TRWS'')
     \<and> v = \<lparr>debug = params_get (debug_opt (params a)) False,
            iterations = sint (params_get (iterations_opt (params a)) 20),
            min_pairwise_cost = params_get (min_pairwise_cost_opt (params a)) 0,
            solver = solver_of a,
            grid_M = M_of a, grid_N = N_of a, grid_C = C_of a,
            numVariables = M_of a * N_of a,
            numberOfLabels =
              size_t_of_int (int_of_size (length (unary_matrix a)) sdiv (M_of a * N_of a))\<rparr>"
  by (auto simp: mexFunction_parse_def Let_def compare_def)

lemma mexFunction_parse_Inl:
  "mexFunction_parse a = Inl e \<longleftrightarrow>
     (if nrhs a \<noteq> 4 then e = MexErrMsgTxt ''Expected 3 inputs''
      else if \<not> int_range (M_of a * N_of a) then e = SignedOverflow
      else if M_of a * N_of a = 0 then e = DivisionByZero
      else if \<not> 0 < M_of a then e = AssertionFailed ''M > 0''
      else if \<not> 0 < N_of a then e = AssertionFailed ''N > 0''
      else solver_of a \<noteq> ''MF'' \<and> solver_of a \<noteq> ''TRWS'' \<and> e = MexErrMsgTxt ''Unknown solver'')"
  by (auto simp: mexFunction_parse_def Let_def compare_def)

text \<open>What the function does once the arguments are accepted.\<close>

lemma mexFunction_on_TRWS:
  "mexFunction_parse a = Inr v \<Longrightarrow> solver v = ''TRWS'' \<Longrightarrow> debug v \<or> int_range (iterations v + 2) \<Longrightarrow>
     mexFunction env a =
       (case Minimize_TRW_S env (trws_graph env a v)
               \<lparr>m_iterMax = iterations v,
                m_printMinIter = (if \<not> debug v then Some (iterations v + 2) else None)\<rparr> of
          Inl e \<Rightarrow> Inl e
        | Inr (solution, TRWSenergy, TRWSlb) \<Rightarrow>
            Inr [\<lparr>dims = [grid_M v, grid_N v],
                  data = map (\<lambda>i. real_of_int (solution i)) [0..<nat (numVariables v)]\<rparr>,
                 \<lparr>dims = [1], data = [TRWSenergy]\<rparr>,
                 \<lparr>dims = [1], data = [TRWSlb]\<rparr>])"
  by (auto simp: mexFunction_def mexFunction_TRWS_def compare_def Let_def)


text \<open>The shape of the outputs of the two solver branches.\<close>

lemma mexFunction_MF_shape:
  "mexFunction_MF env a v = Inr plhs \<Longrightarrow>
     length plhs = 3
     \<and> dims (plhs ! 0) = [grid_M v, grid_N v]
     \<and> length (data (plhs ! 0)) = nat (numVariables v)
     \<and> dims (plhs ! 1) = [1] \<and> length (data (plhs ! 1)) = 1
     \<and> dims (plhs ! 2) = [1] \<and> length (data (plhs ! 2)) = 1"
  by (auto simp: mexFunction_MF_def Let_def split: sum.splits)

lemma mexFunction_TRWS_shape:
  "mexFunction_TRWS env a v = Inr plhs \<Longrightarrow>
     length plhs = 3
     \<and> dims (plhs ! 0) = [grid_M v, grid_N v]
     \<and> length (data (plhs ! 0)) = nat (numVariables v)
     \<and> dims (plhs ! 1) = [1] \<and> length (data (plhs ! 1)) = 1
     \<and> dims (plhs ! 2) = [1] \<and> length (data (plhs ! 2)) = 1"
  by (auto simp: mexFunction_TRWS_def Let_def split: sum.splits if_splits prod.splits)

section \<open>The trivial bound\<close>

lemma fold_min_le: "fold min xs (x :: real) \<le> x \<and> (\<forall>y \<in> set xs. fold min xs x \<le> y)"
proof (induction xs arbitrary: x)
  case Nil
  show ?case by simp
next
  case (Cons z zs)
  have a: "fold min zs (min z x) \<le> min z x" and b: "\<forall>y \<in> set zs. fold min zs (min z x) \<le> y"
    using Cons.IH [of "min z x"] by simp_all
  from a have "fold min zs (min z x) \<le> x" "fold min zs (min z x) \<le> z" by simp_all
  with b show ?case by simp
qed

lemma lowest_le: "y \<in> set xs \<Longrightarrow> lowest xs \<le> y"
  using fold_min_le by (cases xs) auto

lemma lowest_label_le: "l < L \<Longrightarrow> lowest (map f [0..<L]) \<le> f l"
  by (rule lowest_le) simp

lemma PairwiseKernelMixture_cost_nonneg:
  "0 \<le> gaussian_weight w \<Longrightarrow> 0 \<le> bilateral_weight w \<Longrightarrow>
     0 \<le> PairwiseKernelMixture_cost w color p0 p1"
  by (simp add: PairwiseKernelMixture_cost_def Let_def)

lemma bound_le_energy:
  assumes "\<And>i j. 0 \<le> pcost i j" and "valid_labeling n L labeling"
  shows "(\<Sum>i\<leftarrow>[0..<n]. lowest (map (ucost i) [0..<L])) \<le> EnergyFunctor_energy ucost pcost n labeling"
proof -
  have lab: "labeling ! i < L" if "i < n" for i
    using assms(2) that by (simp add: valid_labeling_def list_all_length)
  have u: "(\<Sum>i\<leftarrow>[0..<n]. lowest (map (ucost i) [0..<L])) \<le> (\<Sum>i\<leftarrow>[0..<n]. ucost i (labeling ! i))"
    by (rule sum_list_mono) (simp add: lowest_label_le lab)
  have p: "0 \<le> (\<Sum>(i, j)\<leftarrow>unordered_pairs n. if labeling ! i \<noteq> labeling ! j then pcost i j else 0)"
    by (rule sum_list_nonneg) (auto simp: assms(1))
  show ?thesis
    unfolding EnergyFunctor_energy_def using u p by linarith
qed

lemma MF_bound_output:
  "mexFunction_parse a = Inr v \<Longrightarrow> solver v = ''MF'' \<Longrightarrow> mexFunction env a = Inr plhs \<Longrightarrow>
     plhs ! 2 = \<lparr>dims = [1], data = [lowestUnaryCost (unary_matrix a) (grid_M v) (grid_N v)
                                        (numberOfLabels v)]\<rparr>"
  by (auto simp: mexFunction_def mexFunction_MF_def compare_def Let_def split: sum.splits)

text \<open>The definitions that evaluate the reading of concrete arguments.\<close>

lemmas parse_eval = mexFunction_parse_def example_input_def example_params_def
        params_get_def int_range_def compare_def int_of_size_def size_t_of_int_def
        signed_divide_int_def solver_of_def M_of_def N_of_def C_of_def Let_def

section \<open>The claims\<close>

text \<open>
  C1. In the TRWS path the graph handed to the engine has exactly the edges \<open>(i, j)\<close>
  with \<open>i < j\<close> below the number of variables whose pairwise cost is at least
  \<open>min_pairwise_cost\<close>, each once and each carrying that cost, so no edge joins a
  variable to itself; and that graph is the one \<open>mexFunction\<close> calls
  \<open>Minimize_TRW_S\<close> on, whose answer it returns.
\<close>

theorem sparse_graph_edges:
  "set (edges (trws_graph env a v)) =
     {(i, j, c). i < j \<and> j < nat (numVariables v)
        \<and> c = pairwiseCost env (im_matrix a) (pairwiseWeights (params a))
                (grid_M v, grid_N v, grid_C v)
                (linear2sub env (grid_M v) (grid_N v) i)
                (linear2sub env (grid_M v) (grid_N v) j)
        \<and> c \<ge> min_pairwise_cost v}
   \<and> distinct (map (\<lambda>(i, j, c). (i, j)) (edges (trws_graph env a v)))
   \<and> (mexFunction_parse a = Inr v \<and> solver v = ''TRWS''
        \<and> (debug v \<or> int_range (iterations v + 2)) \<longrightarrow>
        mexFunction env a =
          (case Minimize_TRW_S env (trws_graph env a v)
                  \<lparr>m_iterMax = iterations v,
                   m_printMinIter = (if \<not> debug v then Some (iterations v + 2) else None)\<rparr> of
             Inl e \<Rightarrow> Inl e
           | Inr (solution, TRWSenergy, TRWSlb) \<Rightarrow>
               Inr [\<lparr>dims = [grid_M v, grid_N v],
                     data = map (\<lambda>i. real_of_int (solution i)) [0..<nat (numVariables v)]\<rparr>,
                    \<lparr>dims = [1], data = [TRWSenergy]\<rparr>,
                    \<lparr>dims = [1], data = [TRWSlb]\<rparr>]))"
proof (intro conjI impI)
  show "set (edges (trws_graph env a v)) =
     {(i, j, c). i < j \<and> j < nat (numVariables v)
        \<and> c = pairwiseCost env (im_matrix a) (pairwiseWeights (params a))
                (grid_M v, grid_N v, grid_C v)
                (linear2sub env (grid_M v) (grid_N v) i)
                (linear2sub env (grid_M v) (grid_N v) j)
        \<and> c \<ge> min_pairwise_cost v}"
    unfolding edges_trws_graph by (auto simp: set_unordered_pairs)
  have "map (\<lambda>(i, j, c). (i, j)) (edges (trws_graph env a v)) =
        filter (\<lambda>(i, j). pairwiseCost env (im_matrix a) (pairwiseWeights (params a))
                            (grid_M v, grid_N v, grid_C v)
                            (linear2sub env (grid_M v) (grid_N v) i)
                            (linear2sub env (grid_M v) (grid_N v) j) \<ge> min_pairwise_cost v)
          (unordered_pairs (nat (numVariables v)))"
    unfolding edges_trws_graph by (simp add: comp_def case_prod_beta)
  then show "distinct (map (\<lambda>(i, j, c). (i, j)) (edges (trws_graph env a v)))"
    by (simp add: distinct_unordered_pairs)
next
  assume h: "mexFunction_parse a = Inr v \<and> solver v = ''TRWS''
        \<and> (debug v \<or> int_range (iterations v + 2))"
  then show "mexFunction env a =
          (case Minimize_TRW_S env (trws_graph env a v)
                  \<lparr>m_iterMax = iterations v,
                   m_printMinIter = (if \<not> debug v then Some (iterations v + 2) else None)\<rparr> of
             Inl e \<Rightarrow> Inl e
           | Inr (solution, TRWSenergy, TRWSlb) \<Rightarrow>
               Inr [\<lparr>dims = [grid_M v, grid_N v],
                     data = map (\<lambda>i. real_of_int (solution i)) [0..<nat (numVariables v)]\<rparr>,
                    \<lparr>dims = [1], data = [TRWSenergy]\<rparr>,
                    \<lparr>dims = [1], data = [TRWSlb]\<rparr>])"
    using mexFunction_on_TRWS [of a v env] by blast
qed

theorem sparse_graph_edges_witness:
  "mexFunction_parse
       (example_input\<lparr>params := example_params\<lparr>min_pairwise_cost_opt := Some 2,
                                                solver_opt := Some ''TRWS''\<rparr>\<rparr>)
     = Inr (example_locals\<lparr>min_pairwise_cost := 2, solver := ''TRWS''\<rparr>)
   \<and> edges (trws_graph probe_env
       (example_input\<lparr>params := example_params\<lparr>min_pairwise_cost_opt := Some 2,
                                                solver_opt := Some ''TRWS''\<rparr>\<rparr>)
       (example_locals\<lparr>min_pairwise_cost := 2, solver := ''TRWS''\<rparr>))
     = [(0, 3, 2), (1, 2, 2)]
   \<and> mexFunction probe_env
       (example_input\<lparr>params := example_params\<lparr>min_pairwise_cost_opt := Some 2,
                                                solver_opt := Some ''TRWS''\<rparr>\<rparr>)
     = Inr [\<lparr>dims = [2, 2], data = [0, 0, 0, 0]\<rparr>,
            \<lparr>dims = [1], data = [2]\<rparr>,
            \<lparr>dims = [1], data = [20]\<rparr>]"
proof -
  let ?a = "example_input\<lparr>params := example_params\<lparr>min_pairwise_cost_opt := Some 2,
                                                      solver_opt := Some ''TRWS''\<rparr>\<rparr>"
  let ?v = "example_locals\<lparr>min_pairwise_cost := 2, solver := ''TRWS''\<rparr>"
  have p: "mexFunction_parse ?a = Inr ?v"
    by (simp add: parse_eval example_locals_def)
  have g: "edges (trws_graph probe_env ?a ?v) = [(0, 3, 2), (1, 2, 2)]"
    by (simp add: edges_trws_graph probe_env_def example_env_def example_locals_def
          example_input_def unordered_pairs_def upt_rec)
  have v: "solver ?v = ''TRWS''" "\<not> debug ?v" "iterations ?v = 20" "int_range (20 + 2)"
      "grid_M ?v = 2" "grid_N ?v = 2" "numVariables ?v = 4"
    by (simp_all add: example_locals_def int_range_def)
  have m: "Minimize_TRW_S probe_env mrf options
             = Inr (\<lambda>i. 0, real (length (edges mrf)), real_of_int (m_iterMax options))"
    for mrf options
    by (simp add: probe_env_def)
  show ?thesis
    using sparse_graph_edges [of probe_env ?a ?v] p g
    by (simp add: v m upt_rec int_range_def)
qed

text \<open>
  C4. For the same image, weights and grid, raising \<open>min_pairwise_cost\<close> from \<open>t1\<close>
  to \<open>t2\<close> leaves a subset of the edges, and no more of them.
\<close>

theorem edges_antitone:
  "t1 \<le> t2 \<Longrightarrow>
     set (edges (trws_graph env a (v\<lparr>min_pairwise_cost := t2\<rparr>)))
       \<subseteq> set (edges (trws_graph env a (v\<lparr>min_pairwise_cost := t1\<rparr>)))
     \<and> length (edges (trws_graph env a (v\<lparr>min_pairwise_cost := t2\<rparr>)))
       \<le> length (edges (trws_graph env a (v\<lparr>min_pairwise_cost := t1\<rparr>)))"
  unfolding edges_trws_graph
  by (auto intro!: length_filter_mono)

theorem edges_antitone_witness:
  "(1 :: real) \<le> 2
   \<and> edges (trws_graph example_env example_input (example_locals\<lparr>min_pairwise_cost := 2\<rparr>))
       = [(0, 3, 2), (1, 2, 2)]
   \<and> edges (trws_graph example_env example_input (example_locals\<lparr>min_pairwise_cost := 1\<rparr>))
       = [(0, 1, 1), (0, 2, 1), (0, 3, 2), (1, 2, 2), (1, 3, 1), (2, 3, 1)]"
  using edges_antitone [of 1 2 example_env example_input example_locals]
  by (simp add: edges_trws_graph example_env_def example_locals_def example_input_def
         unordered_pairs_def upt_rec)

text \<open>
  C3. A solver name other than \<open>MF\<close> and \<open>TRWS\<close> (the default \<open>Not set\<close> of an
  absent option included) ends the call with an error while the arguments are read, so
  before any engine runs and with no output; and the error \<open>Unknown solver\<close> is raised
  exactly when the earlier checks pass and the name is neither of the two.
\<close>

theorem unknown_solver_fails:
  "(solver_of a \<noteq> ''MF'' \<and> solver_of a \<noteq> ''TRWS'' \<longrightarrow>
      (\<exists>e. mexFunction_parse a = Inl e \<and> mexFunction env a = Inl e))
   \<and> (mexFunction_parse a = Inl (MexErrMsgTxt ''Unknown solver'') \<longleftrightarrow>
        nrhs a = 4 \<and> int_range (M_of a * N_of a) \<and> 0 < M_of a \<and> 0 < N_of a
        \<and> solver_of a \<noteq> ''MF'' \<and> solver_of a \<noteq> ''TRWS'')"
proof
  show "solver_of a \<noteq> ''MF'' \<and> solver_of a \<noteq> ''TRWS'' \<longrightarrow>
      (\<exists>e. mexFunction_parse a = Inl e \<and> mexFunction env a = Inl e)"
  proof
    assume s: "solver_of a \<noteq> ''MF'' \<and> solver_of a \<noteq> ''TRWS''"
    have "\<not> (\<exists>v. mexFunction_parse a = Inr v)"
      using s by (simp add: mexFunction_parse_Inr)
    then obtain e where "mexFunction_parse a = Inl e"
      by (cases "mexFunction_parse a") auto
    then show "\<exists>e. mexFunction_parse a = Inl e \<and> mexFunction env a = Inl e"
      by (simp add: mexFunction_def)
  qed
  show "mexFunction_parse a = Inl (MexErrMsgTxt ''Unknown solver'') \<longleftrightarrow>
        nrhs a = 4 \<and> int_range (M_of a * N_of a) \<and> 0 < M_of a \<and> 0 < N_of a
        \<and> solver_of a \<noteq> ''MF'' \<and> solver_of a \<noteq> ''TRWS''"
    by (auto simp: mexFunction_parse_Inl)
qed

theorem unknown_solver_fails_witness:
  "mexFunction example_env
     (example_input\<lparr>params := example_params\<lparr>solver_opt := Some ''mf''\<rparr>\<rparr>)
     = Inl (MexErrMsgTxt ''Unknown solver'')
   \<and> mexFunction example_env
     (example_input\<lparr>params := example_params\<lparr>solver_opt := None\<rparr>\<rparr>)
     = Inl (MexErrMsgTxt ''Unknown solver'')"
  using unknown_solver_fails [of "example_input\<lparr>params := example_params\<lparr>solver_opt := Some ''mf''\<rparr>\<rparr>" example_env]
    unknown_solver_fails [of "example_input\<lparr>params := example_params\<lparr>solver_opt := None\<rparr>\<rparr>" example_env]
  by (auto simp: example_input_def example_params_def params_get_def int_range_def
        solver_of_def M_of_def N_of_def)

text \<open>
  C7. If \<open>M\<close> or \<open>N\<close> is not positive, the call ends with an error while the arguments
  are read, with no output: the argument count error, the overflow or the division by
  zero in \<open>UC/(M*N)\<close> at line 50, or one of the assertions of lines 58 and 59.
\<close>

theorem nonpositive_grid_fails:
  "M_of a \<le> 0 \<or> N_of a \<le> 0 \<Longrightarrow>
     \<exists>e. mexFunction_parse a = Inl e \<and> mexFunction env a = Inl e
        \<and> e \<in> {MexErrMsgTxt ''Expected 3 inputs'', SignedOverflow, DivisionByZero,
                AssertionFailed ''M > 0'', AssertionFailed ''N > 0''}"
proof -
  assume g: "M_of a \<le> 0 \<or> N_of a \<le> 0"
  have "\<not> (\<exists>v. mexFunction_parse a = Inr v)"
    using g by (auto simp: mexFunction_parse_Inr)
  then obtain e where e: "mexFunction_parse a = Inl e"
    by (cases "mexFunction_parse a") auto
  have "e \<in> {MexErrMsgTxt ''Expected 3 inputs'', SignedOverflow, DivisionByZero,
                AssertionFailed ''M > 0'', AssertionFailed ''N > 0''}"
    using e g unfolding mexFunction_parse_Inl by (auto split: if_splits)
  with e show ?thesis by (simp add: mexFunction_def)
qed

theorem nonpositive_grid_fails_witness:
  "mexFunction example_env (example_input\<lparr>im_size := (0, 2, 3)\<rparr>) = Inl DivisionByZero
   \<and> mexFunction example_env (example_input\<lparr>im_size := (2, - 1, 3)\<rparr>) = Inl (AssertionFailed ''N > 0'')"
  using nonpositive_grid_fails [of "example_input\<lparr>im_size := (0, 2, 3)\<rparr>" example_env]
    nonpositive_grid_fails [of "example_input\<lparr>im_size := (2, - 1, 3)\<rparr>" example_env]
  by (simp add: mexFunction_def parse_eval)

text \<open>
  C5, as amended. The label count is the truncated quotient of the size of the unary table
  by \<open>M\<cdot>N\<close>. No divisibility check is made: with four arguments, positive \<open>M\<close> and
  \<open>N\<close> whose product is an \<open>int\<close>, a table size that is an \<open>int\<close> and a known
  solver, the arguments are accepted and the chosen solver runs with that label count,
  whether or not the size is a multiple of \<open>M\<cdot>N\<close>.
\<close>

theorem label_count_truncates:
  "nrhs a = 4 \<Longrightarrow> 0 < M_of a \<Longrightarrow> 0 < N_of a \<Longrightarrow> int_range (M_of a * N_of a) \<Longrightarrow>
   length (unary_matrix a) < 2 ^ 31 \<Longrightarrow> solver_of a = ''MF'' \<or> solver_of a = ''TRWS'' \<Longrightarrow>
     \<exists>v. mexFunction_parse a = Inr v
        \<and> numberOfLabels v = length (unary_matrix a) div nat (M_of a * N_of a)
        \<and> mexFunction env a =
            (if solver_of a = ''MF'' then mexFunction_MF env a v else mexFunction_TRWS env a v)"
proof -
  assume h: "nrhs a = 4" "0 < M_of a" "0 < N_of a" "int_range (M_of a * N_of a)"
    "length (unary_matrix a) < 2 ^ 31" "solver_of a = ''MF'' \<or> solver_of a = ''TRWS''"
  obtain v where v: "mexFunction_parse a = Inr v"
    using h by (simp add: mexFunction_parse_Inr)
  have mn: "0 < M_of a * N_of a" using h by simp
  define k where "k = nat (M_of a * N_of a)"
  have k: "M_of a * N_of a = int k" "0 < k" using mn by (simp_all add: k_def)
  have q: "int_of_size (length (unary_matrix a)) sdiv (M_of a * N_of a)
             = int (length (unary_matrix a) div k)"
    using h(5) k by (simp add: int_of_size_small sdiv_nonneg zdiv_int)
  have "length (unary_matrix a) div k \<le> length (unary_matrix a)"
    by (rule div_le_dividend)
  then have "length (unary_matrix a) div k < 2 ^ 64"
    using h(5) power_strict_increasing [of 31 64 "2 :: nat"] by linarith
  then have "int (length (unary_matrix a) div k) mod 2 ^ 64 = int (length (unary_matrix a) div k)"
    by simp
  then have "size_t_of_int (int (length (unary_matrix a) div k)) = length (unary_matrix a) div k"
    unfolding size_t_of_int_def by simp
  then have L: "numberOfLabels v = length (unary_matrix a) div nat (M_of a * N_of a)"
    using v q by (auto simp: mexFunction_parse_Inr k_def)
  have "solver v = solver_of a" using v by (auto simp: mexFunction_parse_Inr)
  then have "mexFunction env a =
            (if solver_of a = ''MF'' then mexFunction_MF env a v else mexFunction_TRWS env a v)"
    using v h(6) by (auto simp: mexFunction_def compare_def)
  with v L show ?thesis by blast
qed

theorem label_count_truncates_witness:
  "\<exists>v. mexFunction_parse (example_input\<lparr>unary_matrix := [0, 1, 1, 0, 1, 0, 0, 1, 5]\<rparr>) = Inr v
      \<and> numberOfLabels v = 2
      \<and> mexFunction example_env (example_input\<lparr>unary_matrix := [0, 1, 1, 0, 1, 0, 0, 1, 5]\<rparr>)
          = mexFunction_MF example_env (example_input\<lparr>unary_matrix := [0, 1, 1, 0, 1, 0, 0, 1, 5]\<rparr>) v"
  using label_count_truncates [of "example_input\<lparr>unary_matrix := [0, 1, 1, 0, 1, 0, 0, 1, 5]\<rparr>" example_env]
  by (simp add: example_input_def example_params_def params_get_def int_range_def
        solver_of_def M_of_def N_of_def)

text \<open>
  C5, as stated, fails: a table of 9 costs on the 2 by 2 grid is accepted and solved.
\<close>

theorem indivisible_unary_counterexample:
  "length (unary_matrix (example_input\<lparr>unary_matrix := [0, 1, 1, 0, 1, 0, 0, 1, 5]\<rparr>)) = 9
   \<and> M_of (example_input\<lparr>unary_matrix := [0, 1, 1, 0, 1, 0, 0, 1, 5]\<rparr>) = 2
   \<and> N_of (example_input\<lparr>unary_matrix := [0, 1, 1, 0, 1, 0, 0, 1, 5]\<rparr>) = 2
   \<and> mexFunction example_env (example_input\<lparr>unary_matrix := [0, 1, 1, 0, 1, 0, 0, 1, 5]\<rparr>) =
       Inr [\<lparr>dims = [2, 2], data = [0, 0, 0, 0]\<rparr>,
            \<lparr>dims = [1], data = [0]\<rparr>,
            \<lparr>dims = [1], data = [0]\<rparr>]"
  by (simp add: mexFunction_def mexFunction_MF_def parse_eval example_env_def
        lowestUnaryCost_def UnaryCostTable_def upt_rec)

text \<open>
  C9. With solver \<open>MF\<close>, two calls that differ only in the option
  \<open>min_pairwise_cost\<close> (given or left out) end alike: the same error, or the same
  labeling, energy and bound.
\<close>

theorem MF_ignores_min_pairwise_cost:
  "solver_of a = ''MF'' \<Longrightarrow>
     mexFunction env (a\<lparr>params := (params a)\<lparr>min_pairwise_cost_opt := x\<rparr>\<rparr>)
       = mexFunction env (a\<lparr>params := (params a)\<lparr>min_pairwise_cost_opt := y\<rparr>\<rparr>)"
  by (simp add: mexFunction_def mexFunction_parse_def mexFunction_MF_def dense_crf_def Let_def
        solver_of_def M_of_def N_of_def C_of_def compare_def cong: sum.case_cong)

theorem MF_ignores_min_pairwise_cost_witness:
  "solver_of example_input = ''MF''
   \<and> mexFunction example_env (example_input\<lparr>params := example_params\<lparr>min_pairwise_cost_opt := Some 7\<rparr>\<rparr>)
       = mexFunction example_env (example_input\<lparr>params := example_params\<lparr>min_pairwise_cost_opt := None\<rparr>\<rparr>)"
  using MF_ignores_min_pairwise_cost [of example_input example_env "Some 7" None]
  by (simp add: example_input_def example_params_def solver_of_def params_get_def)

text \<open>
  C10. The requested output count \<open>nlhs\<close> is never read: changing it changes nothing,
  and every call that succeeds returns all three outputs, the \<open>M\<close> by \<open>N\<close> labeling
  with \<open>M\<cdot>N\<close> entries, the energy and the bound, one value each.
\<close>

theorem outputs_assigned_whatever_nlhs:
  "mexFunction env (a\<lparr>nlhs := k\<rparr>) = mexFunction env a
   \<and> (mexFunction env a = Inr plhs \<longrightarrow>
        length plhs = 3
        \<and> dims (plhs ! 0) = [M_of a, N_of a]
        \<and> length (data (plhs ! 0)) = nat (M_of a * N_of a)
        \<and> dims (plhs ! 1) = [1] \<and> length (data (plhs ! 1)) = 1
        \<and> dims (plhs ! 2) = [1] \<and> length (data (plhs ! 2)) = 1)"
proof
  show "mexFunction env (a\<lparr>nlhs := k\<rparr>) = mexFunction env a"
    by (simp add: mexFunction_def mexFunction_parse_def mexFunction_MF_def dense_crf_def
          mexFunction_TRWS_def trws_graph_def Let_def
          solver_of_def M_of_def N_of_def C_of_def cong: sum.case_cong)
  show "mexFunction env a = Inr plhs \<longrightarrow>
        length plhs = 3
        \<and> dims (plhs ! 0) = [M_of a, N_of a]
        \<and> length (data (plhs ! 0)) = nat (M_of a * N_of a)
        \<and> dims (plhs ! 1) = [1] \<and> length (data (plhs ! 1)) = 1
        \<and> dims (plhs ! 2) = [1] \<and> length (data (plhs ! 2)) = 1"
  proof
    assume r: "mexFunction env a = Inr plhs"
    then obtain v where v: "mexFunction_parse a = Inr v"
      by (cases "mexFunction_parse a") (auto simp: mexFunction_def)
    then have g: "grid_M v = M_of a" "grid_N v = N_of a" "numVariables v = M_of a * N_of a"
      by (auto simp: mexFunction_parse_Inr)
    from r v have "mexFunction_MF env a v = Inr plhs \<or> mexFunction_TRWS env a v = Inr plhs"
      by (auto simp: mexFunction_def mexFunction_parse_Inr compare_def split: if_splits)
    then show "length plhs = 3
        \<and> dims (plhs ! 0) = [M_of a, N_of a]
        \<and> length (data (plhs ! 0)) = nat (M_of a * N_of a)
        \<and> dims (plhs ! 1) = [1] \<and> length (data (plhs ! 1)) = 1
        \<and> dims (plhs ! 2) = [1] \<and> length (data (plhs ! 2)) = 1"
      using mexFunction_MF_shape [of env a v plhs] mexFunction_TRWS_shape [of env a v plhs] g
      by auto
  qed
qed

theorem outputs_assigned_whatever_nlhs_witness:
  "mexFunction example_env (example_input\<lparr>nlhs := 0\<rparr>) = mexFunction example_env example_input
   \<and> mexFunction example_env example_input =
       Inr [\<lparr>dims = [2, 2], data = [0, 0, 0, 0]\<rparr>,
            \<lparr>dims = [1], data = [0]\<rparr>,
            \<lparr>dims = [1], data = [0]\<rparr>]
   \<and> length [\<lparr>dims = [2, 2], data = [0, 0, 0, 0 :: real]\<rparr>,
            \<lparr>dims = [1], data = [0]\<rparr>,
            \<lparr>dims = [1], data = [0]\<rparr>] = 3"
  using outputs_assigned_whatever_nlhs [where env = example_env and a = example_input and k = 0
     and plhs = "[\<lparr>dims = [2, 2], data = [0, 0, 0, 0]\<rparr>, \<lparr>dims = [1], data = [0]\<rparr>, \<lparr>dims = [1], data = [0]\<rparr>]"]
  by (simp add: mexFunction_def mexFunction_MF_def parse_eval example_env_def
        lowestUnaryCost_def UnaryCostTable_def upt_rec)

text \<open>
  C8. In both canonical orders, for every linear index \<open>i\<close> below \<open>M\<cdot>N\<close>, the
  coordinates of \<open>i\<close> are on the grid and lead back to \<open>i\<close>; and every coordinate on
  the grid has a linear index below \<open>M\<cdot>N\<close> that leads back to it.
\<close>

theorem grid_index_round_trip:
  "(i < M * N \<longrightarrow>
      GridIndex_toLinear ord M N (GridIndex_toCoord ord M N i) = i
      \<and> fst (GridIndex_toCoord ord M N i) < M \<and> snd (GridIndex_toCoord ord M N i) < N)
   \<and> (row < M \<and> col < N \<longrightarrow>
      GridIndex_toCoord ord M N (GridIndex_toLinear ord M N (row, col)) = (row, col)
      \<and> GridIndex_toLinear ord M N (row, col) < M * N)"
proof (intro conjI impI)
  assume i: "i < M * N"
  have pos: "0 < M" "0 < N"
    using i by (cases M, simp_all) (cases N, simp_all)
  show "GridIndex_toLinear ord M N (GridIndex_toCoord ord M N i) = i"
    by (cases ord) simp_all
  show "fst (GridIndex_toCoord ord M N i) < M"
    using i pos by (cases ord) (simp_all add: less_mult_imp_div_less)
  show "snd (GridIndex_toCoord ord M N i) < N"
    using i pos by (cases ord) (simp_all add: less_mult_imp_div_less mult.commute)
next
  assume rc: "row < M \<and> col < N"
  show "GridIndex_toCoord ord M N (GridIndex_toLinear ord M N (row, col)) = (row, col)"
    using rc by (cases ord) simp_all
  have "row * N + col < Suc row * N" using rc by simp
  also have "\<dots> \<le> M * N" using rc by (intro mult_le_mono1) simp
  finally have a: "row * N + col < M * N" .
  have "row + col * M < Suc col * M" using rc by simp
  also have "\<dots> \<le> N * M" using rc by (intro mult_le_mono1) simp
  finally have b: "row + col * M < M * N" by (simp add: mult.commute)
  show "GridIndex_toLinear ord M N (row, col) < M * N"
    using a b by (cases ord) simp_all
qed

theorem grid_index_round_trip_witness:
  "(5 :: nat) < 2 * 3
   \<and> GridIndex_toCoord ColumnMajor 2 3 5 = (1, 2) \<and> GridIndex_toLinear ColumnMajor 2 3 (1, 2) = 5
   \<and> GridIndex_toCoord RowMajor 2 3 5 = (1, 2) \<and> GridIndex_toLinear RowMajor 2 3 (1, 2) = 5"
  using grid_index_round_trip [of 5 2 3 ColumnMajor 1 2]
    grid_index_round_trip [of 5 2 3 RowMajor 1 2]
  by simp




text \<open>
  C2, as amended. When both kernel weights are non-negative, the trivial bound (the sum
  over the variables of the lowest unary cost) is at most the energy of every valid
  labeling; and whenever solver \<open>MF\<close> succeeds, the bound output is
  \<open>lowestUnaryCost\<close> of the unary table (line 130).
\<close>

theorem trivial_bound_le_energy:
  "(0 \<le> gaussian_weight w \<and> 0 \<le> bilateral_weight w \<and> valid_labeling (nat (M * N)) L labeling \<longrightarrow>
      lowestUnaryCost unary_array M N L
        \<le> EnergyFunctor_energy (UnaryCostTable unary_array L)
             (\<lambda>i j. PairwiseKernelMixture_cost w color (coord i) (coord j)) (nat (M * N)) labeling)
   \<and> (mexFunction_parse a = Inr v \<and> solver v = ''MF'' \<and> mexFunction env a = Inr plhs \<longrightarrow>
        plhs ! 2 = \<lparr>dims = [1], data = [lowestUnaryCost (unary_matrix a) (grid_M v) (grid_N v)
                                           (numberOfLabels v)]\<rparr>)"
  using bound_le_energy [of "\<lambda>i j. PairwiseKernelMixture_cost w color (coord i) (coord j)"
          "nat (M * N)" L labeling "UnaryCostTable unary_array L"]
    PairwiseKernelMixture_cost_nonneg [of w color] MF_bound_output [of a v env plhs]
  by (simp add: lowestUnaryCost_def)

theorem trivial_bound_le_energy_witness:
  "valid_labeling (nat (2 * 2)) 2 [0, 1, 1, 0]
   \<and> lowestUnaryCost [0, 1, 1, 0, 1, 0, 0, 1] 2 2 2 = 0
   \<and> 0 \<le> EnergyFunctor_energy (UnaryCostTable [0, 1, 1, 0, 1, 0, 0, 1] 2)
             (\<lambda>i j. PairwiseKernelMixture_cost example_weights (\<lambda>p. (0, 0, 0))
                       (int i mod 2, int i div 2) (int j mod 2, int j div 2))
             (nat (2 * 2)) [0, 1, 1, 0]
   \<and> mexFunction_parse example_input = Inr example_locals
   \<and> mexFunction example_env example_input =
       Inr [\<lparr>dims = [2, 2], data = [0, 0, 0, 0]\<rparr>,
            \<lparr>dims = [1], data = [0]\<rparr>,
            \<lparr>dims = [1], data = [lowestUnaryCost [0, 1, 1, 0, 1, 0, 0, 1] 2 2 2]\<rparr>]"
proof -
  have v: "valid_labeling (nat (2 * 2)) 2 [0, 1, 1, 0]"
    by (simp add: valid_labeling_def)
  have w: "0 \<le> gaussian_weight example_weights" "0 \<le> bilateral_weight example_weights"
    by (simp_all add: example_weights_def)
  have l: "lowestUnaryCost [0, 1, 1, 0, 1, 0, 0, 1] 2 2 2 = 0"
    by (simp add: lowestUnaryCost_def UnaryCostTable_def upt_rec)
  have p: "mexFunction_parse example_input = Inr example_locals"
    by (simp add: parse_eval example_locals_def)
  have m: "mexFunction example_env example_input =
       Inr [\<lparr>dims = [2, 2], data = [0, 0, 0, 0]\<rparr>,
            \<lparr>dims = [1], data = [0]\<rparr>,
            \<lparr>dims = [1], data = [lowestUnaryCost [0, 1, 1, 0, 1, 0, 0, 1] 2 2 2]\<rparr>]"
    by (simp add: mexFunction_def mexFunction_MF_def parse_eval example_env_def l upt_rec)
  show ?thesis
    using trivial_bound_le_energy [where w = example_weights and M = 2 and N = 2 and L = 2
        and labeling = "[0, 1, 1, 0]" and unary_array = "[0, 1, 1, 0, 1, 0, 0, 1]"
        and color = "\<lambda>p. (0, 0, 0)" and coord = "\<lambda>i. (int i mod 2, int i div 2)"
        and a = example_input and v = example_locals and env = example_env
        and plhs = "[\<lparr>dims = [2, 2], data = [0, 0, 0, 0]\<rparr>, \<lparr>dims = [1], data = [0]\<rparr>,
            \<lparr>dims = [1], data = [lowestUnaryCost [0, 1, 1, 0, 1, 0, 0, 1] 2 2 2]\<rparr>]"]
      v w l p m
    by simp
qed

text \<open>
  C2, as stated, fails: on a 1 by 2 grid with two labels, all unary costs 0 and the
  spatial weight \<open>-1\<close>, the labeling \<open>[0, 1]\<close> has the energy \<open>- exp (-1)\<close>, below the
  trivial bound 0.
\<close>

theorem trivial_bound_counterexample:
  "valid_labeling (nat (1 * 2)) 2 [0, 1]
   \<and> \<not> lowestUnaryCost [0, 0, 0, 0] 1 2 2
        \<le> EnergyFunctor_energy (UnaryCostTable [0, 0, 0, 0] 2)
             (\<lambda>i j. PairwiseKernelMixture_cost
                       (example_weights\<lparr>gaussian_weight := - 1, bilateral_weight := 0\<rparr>)
                       (\<lambda>p. (0, 0, 0)) (0, int i) (0, int j)) (nat (1 * 2)) [0, 1]"
  by (simp add: valid_labeling_def lowestUnaryCost_def UnaryCostTable_def EnergyFunctor_energy_def
        unordered_pairs_def PairwiseKernelMixture_cost_def example_weights_def upt_rec)

end
